theory Spec2Isabelle
  imports Main "HOL-Library.Sublist"
begin

section \<open>The resource graph declared by SustainabilityCdkappStack\<close>

text \<open>
  The repository holds two versions of one class, \<open>SustainabilityCdkappStack\<close>, whose
  constructor declares cloud resources by calling the construct library in sequence:
  \<^item> \<open>src/unnamed/part_000\<close>: functions, REST API, two buckets, an origin access identity,
    a bucket policy statement, a CDN distribution, a bucket deployment and an output
    (called Variant A below);
  \<^item> \<open>src/lib/sustainability-cdkapp-stack.ts\<close>: functions, REST API and one bucket
    (Variant B).

  The constructor is modelled by explicit state passing. The state is the stack under
  construction: one list per kind of construct, in declaration order. Every
  \<open>new X(this, id, props)\<close> and every \<open>add...\<close> call of the source is one function from
  stack to stack (with the created construct as a handle where the source keeps one).
  Property objects are records with the fields the source writes; a property that some
  call of the source leaves out has an \<open>option\<close> type and is \<open>None\<close> there.

  The model records what the source declares. Of what the construct library creates on
  its own, it has only what the source refers to: the execution role of a function
  (\<open>.role\<close>), the root resource (\<open>.root\<close>) and the deployment stage
  (\<open>.deploymentStage\<close>) of the API. Whatever else the library derives from the declared
  properties when it synthesises a template is not part of the repository and is not
  modelled.
\<close>

type_synonym construct_id = string

subsection \<open>Lambda functions\<close>

datatype Runtime = NODEJS_14_X | NODEJS_16_X | NODEJS_18_X

datatype Architecture = X86_64 | ARM_64

datatype Code = fromAsset string

datatype Duration = seconds nat | minutes nat

record FunctionProps =
  runtime :: Runtime
  description :: string
  code :: Code
  handler :: string
  functionName :: string
  architecture :: "Architecture option"
  timeout :: Duration

text \<open>
  A declared function. \<open>role\<close> is the execution role; the library types it as optional
  (\<open>sustainabilityLambdaFn.role?.\<close> in the source). A function declared without a
  \<open>role\<close> property, as both are here, gets a role of its own, a child construct of the
  function.
\<close>

record Function =
  fn_id :: construct_id
  fn_props :: FunctionProps
  role :: "construct_id option"

subsection \<open>Policies\<close>

datatype Effect = ALLOW | DENY

text \<open>Values only known at deployment, referred to by the construct they belong to.\<close>

datatype Attribute =
  cloudFrontOriginAccessIdentityS3CanonicalUserId construct_id
  | domainName construct_id

datatype Arn = ArnText string | ObjectsArn construct_id string

datatype Principal =
  CanonicalUserPrincipal Attribute
  | ArnPrincipal string
  | AnyPrincipal

record PolicyStatement =
  actions :: "string list"
  resources :: "Arn list"
  principals :: "Principal list"
  effect :: "Effect option"


record Policy =
  policy_id :: construct_id
  statements :: "PolicyStatement list"
  attached_roles :: "construct_id list"

subsection \<open>REST API\<close>

datatype EndpointType = EDGE | REGIONAL | PRIVATE

record CorsOptions =
  allowHeaders :: "string list"
  allowMethods :: "string list"
  allowCredentials :: bool
  allowOrigins :: "string list"

record RestApiProps =
  api_description :: string
  deployOptions_stageName :: "string option"
  endpointConfiguration_types :: "EndpointType list"
  defaultCorsPreflightOptions :: "CorsOptions option"

record Stage =
  stage_api :: construct_id
  stageName :: string

text \<open>
  A node of the API's resource tree. \<open>path\<close> is the full path of the node, built when the
  node is added; the root has path \<open>/\<close> and no parent.
\<close>

record Resource =
  res_api :: construct_id
  parentPath :: "string option"
  pathPart :: string
  path :: string

record RestApi =
  api_id :: construct_id
  api_props :: RestApiProps
  deploymentStage :: Stage
  root :: Resource

datatype Integration =
  LambdaIntegration construct_id "bool option"
  | MockIntegration

record Method =
  method_resource :: Resource
  httpMethod :: string
  integration :: Integration
  apiKeyRequired :: "bool option"

datatype Period = DAY | WEEK | MONTH

record ThrottleSettings =
  burstLimit :: nat
  rateLimit :: nat

record QuotaSettings =
  limit :: nat
  period :: Period

record UsagePlanPerApiStage =
  api :: construct_id
  stage :: Stage

record UsagePlanProps =
  plan_name :: string
  plan_description :: string
  apiStages :: "UsagePlanPerApiStage list"
  throttle :: ThrottleSettings
  quota :: QuotaSettings

record UsagePlan =
  plan_id :: construct_id
  plan_props :: UsagePlanProps
  plan_apiKeys :: "construct_id list"

record ApiKey =
  key_id :: construct_id
  key_api :: construct_id

subsection \<open>Buckets\<close>

datatype BlockPublicAccess = BLOCK_ALL | BLOCK_ACLS

datatype RemovalPolicy = DESTROY | RETAIN | SNAPSHOT

datatype BucketEncryption = UNENCRYPTED | KMS_MANAGED | S3_MANAGED | KMS

record BucketProps =
  blockPublicAccess :: BlockPublicAccess
  publicReadAccess :: bool
  versioned :: bool
  bucketName :: string
  removalPolicy :: RemovalPolicy
  encryption :: BucketEncryption
  autoDeleteObjects :: bool
  enforceSSL :: bool

text \<open>
  A declared bucket with the statements added to its resource policy by
  \<open>addToResourcePolicy\<close>, in the order of the calls.
\<close>

record Bucket =
  bucket_id :: construct_id
  bucket_props :: BucketProps
  resourcePolicy :: "PolicyStatement list"

subsection \<open>CDN, deployment, output\<close>

record OriginAccessIdentity =
  oai_id :: construct_id
  oai_comment :: string

record ErrorResponse =
  httpStatus :: nat
  responseHttpStatus :: nat
  responsePagePath :: string

datatype SecurityPolicyProtocol = TLS_V1_2_2019 | TLS_V1_2_2021

datatype PriceClass = PRICE_CLASS_100 | PRICE_CLASS_200 | PRICE_CLASS_ALL

datatype AllowedMethods = ALLOW_GET_HEAD | ALLOW_GET_HEAD_OPTIONS | ALLOW_ALL_METHODS

datatype ViewerProtocolPolicy = HTTPS_ONLY | REDIRECT_TO_HTTPS | ALLOW_ALL

text \<open>\<open>new S3Origin(bucket, { originAccessIdentity })\<close>: the bucket and the identity.\<close>

datatype Origin = S3Origin construct_id construct_id

record BehaviorOptions =
  origin :: Origin
  compress :: bool
  allowedMethods :: AllowedMethods
  viewerProtocolPolicy :: ViewerProtocolPolicy

record DistributionProps =
  defaultRootObject :: string
  errorResponses :: "ErrorResponse list"
  dist_comment :: string
  minimumProtocolVersion :: SecurityPolicyProtocol
  priceClass :: PriceClass
  enableLogging :: bool
  logFilePrefix :: string
  dist_logBucket :: construct_id
  defaultBehavior :: BehaviorOptions

record Distribution =
  dist_id :: construct_id
  dist_props :: DistributionProps

record BucketDeployment =
  deployment_id :: construct_id
  sources :: "string list"
  destinationBucket :: construct_id
  deployment_distribution :: construct_id
  distributionPaths :: "string list"

record CfnOutput =
  output_id :: construct_id
  output_value :: Attribute
  output_description :: string
  exportName :: string

subsection \<open>The stack under construction\<close>

record Stack =
  lambdaFunctions :: "Function list"
  policies :: "Policy list"
  restApis :: "RestApi list"
  apiResources :: "Resource list"
  apiMethods :: "Method list"
  usagePlans :: "UsagePlan list"
  apiKeys :: "ApiKey list"
  buckets :: "Bucket list"
  originAccessIdentities :: "OriginAccessIdentity list"
  distributions :: "Distribution list"
  bucketDeployments :: "BucketDeployment list"
  outputs :: "CfnOutput list"

definition empty_stack :: Stack where
  "empty_stack =
     \<lparr>lambdaFunctions = [], policies = [], restApis = [], apiResources = [], apiMethods = [],
      usagePlans = [], apiKeys = [], buckets = [], originAccessIdentities = [],
      distributions = [], bucketDeployments = [], outputs = []\<rparr>"

section \<open>The calls of the construct library\<close>

subsection \<open>Functions and identity policies\<close>

definition new_Function :: "construct_id \<Rightarrow> FunctionProps \<Rightarrow> Stack \<Rightarrow> Function \<times> Stack" where
  "new_Function cid props s =
     (let f = \<lparr>fn_id = cid, fn_props = props, role = Some (cid @ ''/ServiceRole'')\<rparr>
      in (f, s\<lparr>lambdaFunctions := lambdaFunctions s @ [f]\<rparr>))"

definition new_Policy :: "construct_id \<Rightarrow> PolicyStatement list \<Rightarrow> Stack \<Rightarrow> Policy \<times> Stack" where
  "new_Policy cid sts s =
     (let p = \<lparr>policy_id = cid, statements = sts, attached_roles = []\<rparr>
      in (p, s\<lparr>policies := policies s @ [p]\<rparr>))"

text \<open>
  \<open>role.attachInlinePolicy(policy)\<close>. The policy object is shared with the stack, so the
  attachment shows on the stack's policy of that id.
\<close>

definition attachInlinePolicy :: "construct_id \<Rightarrow> Policy \<Rightarrow> Stack \<Rightarrow> Stack" where
  "attachInlinePolicy r p s =
     s\<lparr>policies :=
         map (\<lambda>q. if policy_id q = policy_id p
                   then q\<lparr>attached_roles := attached_roles q @ [r]\<rparr> else q)
           (policies s)\<rparr>"

subsection \<open>REST API\<close>

text \<open>
  \<open>new RestApi(this, id, props)\<close>: the API with its root resource and, since the source
  leaves deployment on, its deployment stage, named by \<open>deployOptions.stageName\<close>
  (\<open>prod\<close> when that is left out).
\<close>

definition new_RestApi :: "construct_id \<Rightarrow> RestApiProps \<Rightarrow> Stack \<Rightarrow> RestApi \<times> Stack" where
  "new_RestApi cid props s =
     (let r = \<lparr>res_api = cid, parentPath = None, pathPart = [], path = ''/''\<rparr>;
          a = \<lparr>api_id = cid, api_props = props,
               deploymentStage =
                 \<lparr>stage_api = cid,
                  stageName = (case deployOptions_stageName props of
                                 None \<Rightarrow> ''prod'' | Some n \<Rightarrow> n)\<rparr>,
               root = r\<rparr>
      in (a, s\<lparr>restApis := restApis s @ [a], apiResources := apiResources s @ [r]\<rparr>))"

text \<open>
  \<open>parent.addResource(pathPart)\<close>: the child's path is the parent's path, a slash unless
  the parent's path already ends in one, and the path part.
\<close>

definition endsWith_slash :: "string \<Rightarrow> bool" where
  "endsWith_slash p = (case rev p of [] \<Rightarrow> False | c # _ \<Rightarrow> c = CHR ''/'')"

definition addResource :: "Resource \<Rightarrow> string \<Rightarrow> Stack \<Rightarrow> Resource \<times> Stack" where
  "addResource parent part s =
     (let r = \<lparr>res_api = res_api parent, parentPath = Some (path parent), pathPart = part,
               path = (if endsWith_slash (path parent) then path parent
                       else path parent @ ''/'') @ part\<rparr>
      in (r, s\<lparr>apiResources := apiResources s @ [r]\<rparr>))"

definition addMethod :: "Resource \<Rightarrow> string \<Rightarrow> Integration \<Rightarrow> bool option \<Rightarrow> Stack \<Rightarrow> Stack" where
  "addMethod res m i keyRequired s =
     s\<lparr>apiMethods := apiMethods s @
          [\<lparr>method_resource = res, httpMethod = m, integration = i,
            apiKeyRequired = keyRequired\<rparr>]\<rparr>"

definition addUsagePlan :: "RestApi \<Rightarrow> construct_id \<Rightarrow> UsagePlanProps \<Rightarrow> Stack \<Rightarrow> UsagePlan \<times> Stack" where
  "addUsagePlan a cid props s =
     (let p = \<lparr>plan_id = cid, plan_props = props, plan_apiKeys = []\<rparr>
      in (p, s\<lparr>usagePlans := usagePlans s @ [p]\<rparr>))"

text \<open>\<open>api.addApiKey(id)\<close> declares a key; \<open>plan.addApiKey(key)\<close> puts a key on a plan.\<close>

definition RestApi_addApiKey :: "RestApi \<Rightarrow> construct_id \<Rightarrow> Stack \<Rightarrow> ApiKey \<times> Stack" where
  "RestApi_addApiKey a cid s =
     (let k = \<lparr>key_id = cid, key_api = api_id a\<rparr>
      in (k, s\<lparr>apiKeys := apiKeys s @ [k]\<rparr>))"

definition UsagePlan_addApiKey :: "UsagePlan \<Rightarrow> ApiKey \<Rightarrow> Stack \<Rightarrow> Stack" where
  "UsagePlan_addApiKey p k s =
     s\<lparr>usagePlans :=
         map (\<lambda>q. if plan_id q = plan_id p
                   then q\<lparr>plan_apiKeys := plan_apiKeys q @ [key_id k]\<rparr> else q)
           (usagePlans s)\<rparr>"

subsection \<open>Buckets, CDN, deployment, output\<close>

definition new_Bucket :: "construct_id \<Rightarrow> BucketProps \<Rightarrow> Stack \<Rightarrow> Bucket \<times> Stack" where
  "new_Bucket cid props s =
     (let b = \<lparr>bucket_id = cid, bucket_props = props, resourcePolicy = []\<rparr>
      in (b, s\<lparr>buckets := buckets s @ [b]\<rparr>))"

definition arnForObjects :: "Bucket \<Rightarrow> string \<Rightarrow> Arn" where
  "arnForObjects b keyPattern = ObjectsArn (bucket_id b) keyPattern"

definition addToResourcePolicy :: "Bucket \<Rightarrow> PolicyStatement \<Rightarrow> Stack \<Rightarrow> Stack" where
  "addToResourcePolicy b st s =
     s\<lparr>buckets :=
         map (\<lambda>q. if bucket_id q = bucket_id b
                   then q\<lparr>resourcePolicy := resourcePolicy q @ [st]\<rparr> else q)
           (buckets s)\<rparr>"

definition new_OriginAccessIdentity ::
  "construct_id \<Rightarrow> string \<Rightarrow> Stack \<Rightarrow> OriginAccessIdentity \<times> Stack" where
  "new_OriginAccessIdentity cid c s =
     (let i = \<lparr>oai_id = cid, oai_comment = c\<rparr>
      in (i, s\<lparr>originAccessIdentities := originAccessIdentities s @ [i]\<rparr>))"

definition new_Distribution ::
  "construct_id \<Rightarrow> DistributionProps \<Rightarrow> Stack \<Rightarrow> Distribution \<times> Stack" where
  "new_Distribution cid props s =
     (let d = \<lparr>dist_id = cid, dist_props = props\<rparr>
      in (d, s\<lparr>distributions := distributions s @ [d]\<rparr>))"

definition new_BucketDeployment :: "BucketDeployment \<Rightarrow> Stack \<Rightarrow> Stack" where
  "new_BucketDeployment d s = s\<lparr>bucketDeployments := bucketDeployments s @ [d]\<rparr>"

definition new_CfnOutput :: "CfnOutput \<Rightarrow> Stack \<Rightarrow> Stack" where
  "new_CfnOutput out s = s\<lparr>outputs := outputs s @ [out]\<rparr>"

section \<open>The constructor\<close>

text \<open>
  Both versions of the constructor start with the same statements (lines 13 to 93 of
  \<open>src/lib/sustainability-cdkapp-stack.ts\<close>, lines 16 to 96 of \<open>src/unnamed/part_000\<close>):
  the two functions, the inline policy, the REST API with its resources, method, usage
  plan and key. \<open>dirname\<close> is the value of \<open>__dirname\<close>.

  In \<open>sustainabilityLambdaFn.role?.attachInlinePolicy(new iam.Policy(...))\<close> the optional
  chaining skips the whole call, the \<open>new\<close> included, when there is no role.
\<close>

definition functions_and_api :: "string \<Rightarrow> Stack \<Rightarrow> Stack" where
  "functions_and_api dirname s0 =
     (let (sustainabilityLambdaFn, s1) =
            new_Function ''sustainability-core''
              \<lparr>runtime = NODEJS_16_X,
               description = ''This lambda processes sustainability related logic'',
               code = fromAsset (dirname @ ''/../src/sustainability''),
               handler = ''index.handler'',
               functionName = ''sustainability-core'',
               architecture = None,
               timeout = seconds 60\<rparr> s0;
          (hexCoreLambdaFn, s2) =
            new_Function ''hex-core-dev''
              \<lparr>runtime = NODEJS_16_X,
               description = ''This lambda processes sustainability related logic'',
               code = fromAsset (dirname @ ''/../src/sustainability''),
               handler = ''index.handler'',
               functionName = ''hex-core-dev'',
               architecture = Some ARM_64,
               timeout = seconds 60\<rparr> s1;
          s3 = (case role sustainabilityLambdaFn of
                  None \<Rightarrow> s2
                | Some r \<Rightarrow>
                    (let (p, s') =
                           new_Policy ''sustainability-policy''
                             [\<lparr>actions = [''cloudformation:ListStackResources''],
                               resources = [ArnText ''*''], principals = [], effect = None\<rparr>,
                              \<lparr>actions = [''ec2:DescribeInstances''],
                               resources = [ArnText ''*''], principals = [], effect = None\<rparr>,
                              \<lparr>actions = [''lambda:GetFunctionConfiguration''],
                               resources = [ArnText ''*''], principals = [], effect = None\<rparr>,
                              \<lparr>actions = [''s3:GetLifecycleConfiguration''],
                               resources = [ArnText ''*''], principals = [], effect = None\<rparr>]
                             s2
                     in attachInlinePolicy r p s'));
          (sustainability_apigw, s4) =
            new_RestApi ''sustainability-api''
              \<lparr>api_description = ''API triggers Sustainability'',
               deployOptions_stageName = Some ''dev'',
               endpointConfiguration_types = [REGIONAL],
               defaultCorsPreflightOptions =
                 Some \<lparr>allowHeaders = [''*''],
                       allowMethods = [''OPTIONS'', ''GET'', ''POST'', ''PUT'', ''PATCH'', ''DELETE''],
                       allowCredentials = True,
                       allowOrigins = [''*'']\<rparr>\<rparr> s3;
          (sustainability, s5) = addResource (root sustainability_apigw) ''green'' s4;
          (v1, s6) = addResource sustainability ''v1'' s5;
          (checkSustainability, s7) = addResource v1 ''sustainability'' s6;
          s8 = addMethod checkSustainability ''POST''
                 (LambdaIntegration (fn_id sustainabilityLambdaFn) (Some True))
                 (Some True) s7;
          (sustainability_usage_plan, s9) =
            addUsagePlan sustainability_apigw ''sustainability-usageplan''
              \<lparr>plan_name = ''sustainability-usageplan'',
               plan_description = ''API key to access sustainability APIs'',
               apiStages = [\<lparr>api = api_id sustainability_apigw,
                              stage = deploymentStage sustainability_apigw\<rparr>],
               throttle = \<lparr>burstLimit = 1, rateLimit = 1\<rparr>,
               quota = \<lparr>limit = 1000, period = MONTH\<rparr>\<rparr> s8;
          (key, s10) = RestApi_addApiKey sustainability_apigw ''ApiKey'' s9
      in UsagePlan_addApiKey sustainability_usage_plan key s10)"

text \<open>Variant A, \<open>src/unnamed/part_000\<close>.\<close>

definition SustainabilityCdkappStack_A :: "string \<Rightarrow> Stack" where
  "SustainabilityCdkappStack_A dirname =
     (let s1 = functions_and_api dirname empty_stack;
          (siteBucket, s2) =
            new_Bucket ''Bucket''
              \<lparr>blockPublicAccess = BLOCK_ALL,
               publicReadAccess = False,
               versioned = False,
               bucketName = ''cloud9-sustainability-poc-ui-bucket'',
               removalPolicy = DESTROY,
               encryption = S3_MANAGED,
               autoDeleteObjects = True,
               enforceSSL = True\<rparr> s1;
          (logBucket, s3) =
            new_Bucket ''LogBucket''
              \<lparr>blockPublicAccess = BLOCK_ALL,
               publicReadAccess = False,
               versioned = False,
               bucketName = ''common-logging-cloud9-sustainability-poc-ui-bucket'',
               removalPolicy = DESTROY,
               encryption = S3_MANAGED,
               autoDeleteObjects = True,
               enforceSSL = True\<rparr> s2;
          (cloudfrontOAI, s4) =
            new_OriginAccessIdentity ''sfimage-cloudfront-OAI''
              ''OAI for Salesforce static image CDN'' s3;
          s5 = addToResourcePolicy siteBucket
                 \<lparr>actions = [''s3:GetObject''],
                  resources = [arnForObjects siteBucket ''*''],
                  principals =
                    [CanonicalUserPrincipal
                       (cloudFrontOriginAccessIdentityS3CanonicalUserId (oai_id cloudfrontOAI))],
                  effect = None\<rparr> s4;
          (distribution, s6) =
            new_Distribution ''cloud9-sustainability-siteDistribution''
              \<lparr>defaultRootObject = ''index.html'',
               errorResponses =
                 [\<lparr>httpStatus = 404, responseHttpStatus = 200,
                   responsePagePath = ''/index.html''\<rparr>],
               dist_comment = ''This distribution hosts the static images from Salesforce'',
               minimumProtocolVersion = TLS_V1_2_2021,
               priceClass = PRICE_CLASS_100,
               enableLogging = True,
               logFilePrefix = ''cloud9-sustainability-cloudfront'',
               dist_logBucket = bucket_id logBucket,
               defaultBehavior =
                 \<lparr>origin = S3Origin (bucket_id siteBucket) (oai_id cloudfrontOAI),
                  compress = True,
                  allowedMethods = ALLOW_GET_HEAD_OPTIONS,
                  viewerProtocolPolicy = REDIRECT_TO_HTTPS\<rparr>\<rparr> s5;
          s7 = new_BucketDeployment
                 \<lparr>deployment_id = ''DeployWithInvalidation'',
                  sources = [''./site-contents''],
                  destinationBucket = bucket_id siteBucket,
                  deployment_distribution = dist_id distribution,
                  distributionPaths = [''/*'']\<rparr> s6
      in new_CfnOutput
           \<lparr>output_id = ''CloudFrontURL'',
            output_value = domainName (dist_id distribution),
            output_description = ''The distribution URL'',
            exportName = ''CloudfrontURL''\<rparr> s7)"

text \<open>Variant B, \<open>src/lib/sustainability-cdkapp-stack.ts\<close>.\<close>

definition SustainabilityCdkappStack_B :: "string \<Rightarrow> Stack" where
  "SustainabilityCdkappStack_B dirname =
     (let s1 = functions_and_api dirname empty_stack;
          (siteBucket, s2) =
            new_Bucket ''Bucket''
              \<lparr>blockPublicAccess = BLOCK_ALL,
               publicReadAccess = False,
               versioned = False,
               bucketName = ''sustainability-proof-of-concept'',
               removalPolicy = DESTROY,
               encryption = S3_MANAGED,
               autoDeleteObjects = True,
               enforceSSL = True\<rparr> s1
      in s2)"

section \<open>Properties of the declared graph\<close>

subsection \<open>The two functions\<close>



subsection \<open>The inline policy\<close>






subsection \<open>The API's resource tree and method\<close>



subsection \<open>Usage plan and key\<close>

definition usage_plan_bound :: "Stack \<Rightarrow> bool" where
  "usage_plan_bound S =
     (case restApis S of
        [a] \<Rightarrow>
          (case usagePlans S of
             [p] \<Rightarrow>
               (case apiKeys S of
                  [k] \<Rightarrow>
                    burstLimit (throttle (plan_props p)) = 1 \<and>
                    rateLimit (throttle (plan_props p)) = 1 \<and>
                    limit (quota (plan_props p)) = 1000 \<and>
                    period (quota (plan_props p)) = MONTH \<and>
                    plan_apiKeys p = [key_id k] \<and>
                    apiStages (plan_props p) = [\<lparr>api = api_id a, stage = deploymentStage a\<rparr>] \<and>
                    stage_api (deploymentStage a) = api_id a
                | _ \<Rightarrow> False)
           | _ \<Rightarrow> False)
      | _ \<Rightarrow> False)"

subsection \<open>CORS\<close>

text \<open>The preflight options of the declared APIs, one entry per API that sets them.\<close>

definition cors_options :: "Stack \<Rightarrow> CorsOptions list" where
  "cors_options S =
     concat (map (\<lambda>a. case defaultCorsPreflightOptions (api_props a) of
                         None \<Rightarrow> [] | Some c \<Rightarrow> [c]) (restApis S))"

subsection \<open>Buckets and CDN\<close>




text \<open>What the distribution answers for an origin error status: status and page.\<close>

definition error_remap :: "Distribution \<Rightarrow> nat \<Rightarrow> (nat \<times> string) list" where
  "error_remap d status =
     map (\<lambda>e. (responseHttpStatus e, responsePagePath e))
       (filter (\<lambda>e. httpStatus e = status) (errorResponses (dist_props d)))"

section \<open>Evaluating the constructor\<close>

lemmas construct_calls =
  new_Function_def new_Policy_def attachInlinePolicy_def new_RestApi_def endsWith_slash_def
  addResource_def addMethod_def addUsagePlan_def RestApi_addApiKey_def UsagePlan_addApiKey_def
  new_Bucket_def arnForObjects_def addToResourcePolicy_def new_OriginAccessIdentity_def
  new_Distribution_def new_BucketDeployment_def new_CfnOutput_def empty_stack_def

text \<open>
  The statements after the shared part declare buckets, the CDN, the deployment and the
  output only: the functions, policies and API constructs of either variant are those of
  the shared part.
\<close>

lemma variant_A_shared:
  "lambdaFunctions (SustainabilityCdkappStack_A d) = lambdaFunctions (functions_and_api d empty_stack)"
  "policies (SustainabilityCdkappStack_A d) = policies (functions_and_api d empty_stack)"
  "restApis (SustainabilityCdkappStack_A d) = restApis (functions_and_api d empty_stack)"
  "apiResources (SustainabilityCdkappStack_A d) = apiResources (functions_and_api d empty_stack)"
  "apiMethods (SustainabilityCdkappStack_A d) = apiMethods (functions_and_api d empty_stack)"
  "usagePlans (SustainabilityCdkappStack_A d) = usagePlans (functions_and_api d empty_stack)"
  "apiKeys (SustainabilityCdkappStack_A d) = apiKeys (functions_and_api d empty_stack)"
  by (simp_all add: SustainabilityCdkappStack_A_def new_Bucket_def addToResourcePolicy_def
      new_OriginAccessIdentity_def new_Distribution_def new_BucketDeployment_def
      new_CfnOutput_def Let_def)

lemma variant_B_shared:
  "lambdaFunctions (SustainabilityCdkappStack_B d) = lambdaFunctions (functions_and_api d empty_stack)"
  "policies (SustainabilityCdkappStack_B d) = policies (functions_and_api d empty_stack)"
  "restApis (SustainabilityCdkappStack_B d) = restApis (functions_and_api d empty_stack)"
  "apiResources (SustainabilityCdkappStack_B d) = apiResources (functions_and_api d empty_stack)"
  "apiMethods (SustainabilityCdkappStack_B d) = apiMethods (functions_and_api d empty_stack)"
  "usagePlans (SustainabilityCdkappStack_B d) = usagePlans (functions_and_api d empty_stack)"
  "apiKeys (SustainabilityCdkappStack_B d) = apiKeys (functions_and_api d empty_stack)"
  by (simp_all add: SustainabilityCdkappStack_B_def new_Bucket_def Let_def)

text \<open>The shared part declares no bucket, so the buckets are those of the later statements.\<close>

lemma shared_declares_no_bucket: "buckets (functions_and_api d empty_stack) = []"
  by (simp add: functions_and_api_def construct_calls Let_def)

section \<open>The claims\<close>




text \<open>
  C2. In both variants there is one API, one usage plan and one API key. The plan has
  burst limit 1, rate limit 1 and a quota of 1000 per month; the key is on the plan; the
  plan's only stage is the deployment stage of the API.
\<close>

theorem usage_plan_limits_key_and_stage:
  "usage_plan_bound (SustainabilityCdkappStack_A dirname) \<and>
   usage_plan_bound (SustainabilityCdkappStack_B dirname)"
  unfolding usage_plan_bound_def variant_A_shared variant_B_shared
  by (simp add: functions_and_api_def construct_calls Let_def)

text \<open>
  C8. In both variants the preflight options of the one API allow every origin, every
  header and the methods OPTIONS, GET, POST, PUT, PATCH and DELETE, no other.
\<close>

theorem cors_allows_all_origins_headers_six_methods:
  "map (\<lambda>c. (allowOrigins c, allowHeaders c, set (allowMethods c)))
     (cors_options (SustainabilityCdkappStack_A dirname)) =
     [([''*''], [''*''], {''OPTIONS'', ''GET'', ''POST'', ''PUT'', ''PATCH'', ''DELETE''})] \<and>
   map (\<lambda>c. (allowOrigins c, allowHeaders c, set (allowMethods c)))
     (cors_options (SustainabilityCdkappStack_B dirname)) =
     [([''*''], [''*''], {''OPTIONS'', ''GET'', ''POST'', ''PUT'', ''PATCH'', ''DELETE''})] \<and>
   length (restApis (SustainabilityCdkappStack_A dirname)) = 1 \<and>
   length (restApis (SustainabilityCdkappStack_B dirname)) = 1"
  unfolding cors_options_def variant_A_shared variant_B_shared
  by (simp add: functions_and_api_def construct_calls Let_def)

text \<open>
  C9. In both variants the preflight options of the API set \<open>allowCredentials\<close> to true and
  have the wildcard \<open>*\<close> among the allowed origins.
\<close>

theorem cors_credentials_with_wildcard_origin:
  "map (\<lambda>c. (allowCredentials c, ''*'' \<in> set (allowOrigins c)))
     (cors_options (SustainabilityCdkappStack_A dirname)) = [(True, True)] \<and>
   map (\<lambda>c. (allowCredentials c, ''*'' \<in> set (allowOrigins c)))
     (cors_options (SustainabilityCdkappStack_B dirname)) = [(True, True)]"
  unfolding cors_options_def variant_A_shared variant_B_shared
  by (simp add: functions_and_api_def construct_calls Let_def)

text \<open>
  C6. Every declared bucket, the site bucket and the log bucket of Variant A and the one
  bucket of Variant B, has removal policy DESTROY and automatic deletion of its objects.
\<close>

theorem buckets_destroyed_with_stack:
  "map (\<lambda>b. (bucket_id b, removalPolicy (bucket_props b), autoDeleteObjects (bucket_props b)))
     (buckets (SustainabilityCdkappStack_A dirname)) =
     [(''Bucket'', DESTROY, True), (''LogBucket'', DESTROY, True)] \<and>
   map (\<lambda>b. (bucket_id b, removalPolicy (bucket_props b), autoDeleteObjects (bucket_props b)))
     (buckets (SustainabilityCdkappStack_B dirname)) =
     [(''Bucket'', DESTROY, True)]"
  by (simp add: SustainabilityCdkappStack_A_def SustainabilityCdkappStack_B_def
      shared_declares_no_bucket new_Bucket_def addToResourcePolicy_def
      new_OriginAccessIdentity_def new_Distribution_def new_BucketDeployment_def
      new_CfnOutput_def Let_def)


text \<open>
  C7. Variant A declares one distribution. Its default behaviour redirects viewers to
  HTTPS, its default root object is \<open>index.html\<close>, and an origin status 404 is answered
  with status 200 and the page \<open>/index.html\<close>.
\<close>

theorem distribution_https_root_and_404_remap:
  "map (\<lambda>d. (viewerProtocolPolicy (defaultBehavior (dist_props d)),
              defaultRootObject (dist_props d), error_remap d 404))
     (distributions (SustainabilityCdkappStack_A dirname)) =
     [(REDIRECT_TO_HTTPS, ''index.html'', [(200, ''/index.html'')])]"
  by (simp add: error_remap_def SustainabilityCdkappStack_A_def functions_and_api_def
      construct_calls Let_def)


end
